theory Spec2Isabelle
  imports Main "HOL-Library.AList"
begin

section \<open>Values of the host language\<close>

text \<open>
  The conversations client (\<^verbatim>\<open>packages/conversations/lib/conversations.ts\<close>) works on
  plain JavaScript objects: wire responses parsed from JSON, domain values built by the
  caller, and filter objects. Its transcoders rename keys at run time, so the model keeps
  objects untyped. An object is the list of its own properties in insertion order; a
  property whose value is \<open>JUndefined\<close> is present with the value \<^verbatim>\<open>undefined\<close>, as in
  \<^verbatim>\<open>{ member_id_inviting: undefined }\<close>. Numbers are integers: no arithmetic is done
  on them, only the truthiness test, where \<open>0\<close> is the falsy number.
\<close>

datatype json =
    JUndefined
  | JNull
  | JBool bool
  | JNum int
  | JStr string
  | JArr "json list"
  | JObj "(string \<times> json) list"

datatype error = TypeError | TransportError | ApiError

text \<open>The truthiness test of \<^verbatim>\<open>if (v)\<close>, \<^verbatim>\<open>a && b\<close>, \<^verbatim>\<open>a || b\<close> and \<^verbatim>\<open>c ? x : y\<close>.\<close>

fun truthy :: "json \<Rightarrow> bool" where
  "truthy JUndefined = False"
| "truthy JNull = False"
| "truthy (JBool b) = b"
| "truthy (JNum n) = (n \<noteq> 0)"
| "truthy (JStr s) = (s \<noteq> [])"
| "truthy (JArr xs) = True"
| "truthy (JObj kvs) = True"

fun nullish :: "json \<Rightarrow> bool" where
  "nullish JUndefined = True"
| "nullish JNull = True"
| "nullish v = False"

text \<open>
  \<open>optProp v k\<close> is \<^verbatim>\<open>v?.k\<close>: \<^verbatim>\<open>undefined\<close> when \<open>v\<close> is nullish or has no property
  \<open>k\<close>. \<open>getProp v k\<close> is \<^verbatim>\<open>v.k\<close>, which raises a TypeError on a nullish \<open>v\<close>. None of
  the property names read by the client is a built-in property of a string, number,
  boolean or array, so those values have no property here.
\<close>

fun optProp :: "json \<Rightarrow> string \<Rightarrow> json" where
  "optProp (JObj kvs) k = (case map_of kvs k of Some x \<Rightarrow> x | None \<Rightarrow> JUndefined)"
| "optProp v k = JUndefined"

definition getProp :: "json \<Rightarrow> string \<Rightarrow> error + json" where
  "getProp v k = (if nullish v then Inl TypeError else Inr (optProp v k))"

text \<open>
  \<open>setProp v k x\<close> is the assignment \<^verbatim>\<open>v.k = x\<close> (the module is compiled in strict mode,
  where assigning to a property of a value that is not an object raises): an existing
  property keeps its place, a new one goes last. \<open>deleteProp v k\<close> is \<^verbatim>\<open>delete v.k\<close>,
  reached only after a successful read of a property of \<open>v\<close>.
\<close>

fun setProp :: "json \<Rightarrow> string \<Rightarrow> json \<Rightarrow> error + json" where
  "setProp (JObj kvs) k x = Inr (JObj (AList.update k x kvs))"
| "setProp v k x = Inl TypeError"

fun deleteProp :: "json \<Rightarrow> string \<Rightarrow> json" where
  "deleteProp (JObj kvs) k = JObj (AList.delete k kvs)"
| "deleteProp v k = v"

fun hasProp :: "json \<Rightarrow> string \<Rightarrow> bool" where
  "hasProp (JObj kvs) k = (k \<in> fst ` set kvs)"
| "hasProp v k = False"

fun ownKeys :: "json \<Rightarrow> string list" where
  "ownKeys (JObj kvs) = map fst kvs"
| "ownKeys v = []"

text \<open>
  An object literal, \<^verbatim>\<open>{ ...a, k: v }\<close>, defines its properties from left to right, a
  later definition of a key replacing the value of an earlier one. \<open>spread v\<close> is what
  \<^verbatim>\<open>...v\<close> contributes.
\<close>

definition objectFromEntries :: "(string \<times> json) list \<Rightarrow> (string \<times> json) list" where
  "objectFromEntries kvs = fold (\<lambda>kv acc. AList.update (fst kv) (snd kv) acc) kvs []"

fun spread :: "json \<Rightarrow> (string \<times> json) list" where
  "spread (JObj kvs) = kvs"
| "spread v = []"

section \<open>The transformers of the server client\<close>

text \<open>
  \<^verbatim>\<open>Client.transformers.camelCaseObjectKeys\<close>, \<^verbatim>\<open>snakeCaseObjectKeys\<close> and \<^verbatim>\<open>omit\<close>
  belong to the package \<^verbatim>\<open>@vonage/server-client\<close>, whose source is not at hand; the three
  are modelled from the spec. The word-level converters themselves (camelCase and
  snakeCase of the lodash library) are not modelled: every definition below takes them as
  the parameters \<open>camelCase\<close> and \<open>snakeCase\<close>.
\<close>

text \<open>
  Modelled from the spec: the deep key conversion, a "dynamic, runtime field-name case
  conversion over arbitrary nested structures" that "recursively converts" field names.
  \<open>transformKeys f v\<close> renames by \<open>f\<close> every key of \<open>v\<close> and of the objects nested in it,
  through arrays, defining the renamed properties in the order of the original ones; a
  value without properties is returned as it is.
\<close>

fun transformKeys :: "(string \<Rightarrow> string) \<Rightarrow> json \<Rightarrow> json" where
  "transformKeys f (JObj kvs) =
     JObj (objectFromEntries (map (\<lambda>kv. (f (fst kv), transformKeys f (snd kv))) kvs))"
| "transformKeys f (JArr xs) = JArr (map (transformKeys f) xs)"
| "transformKeys f v = v"

text \<open>
  Modelled from the spec: the same conversion without \<^verbatim>\<open>deep\<close>, as the page fetchers
  apply it to the filter ("filter parameter names are converted to wire naming"): only
  the keys of the object itself are renamed.
\<close>

fun renameKeys :: "(string \<Rightarrow> string) \<Rightarrow> json \<Rightarrow> json" where
  "renameKeys f (JObj kvs) = JObj (objectFromEntries (map (\<lambda>kv. (f (fst kv), snd kv)) kvs))"
| "renameKeys f v = v"

text \<open>
  Modelled from the spec: \<^verbatim>\<open>camelCaseObjectKeys(obj, deep)\<close> is
  \<open>transformObjectKeys camelCase obj deep\<close> and \<^verbatim>\<open>snakeCaseObjectKeys(obj, deep)\<close> is
  \<open>transformObjectKeys snakeCase obj deep\<close>; \<^verbatim>\<open>deep\<close> is false when it is not given. The
  result is a new object: applied to a value that is not an object (the filter of a page
  request made with no filter), it is the empty object.
\<close>

definition transformObjectKeys :: "(string \<Rightarrow> string) \<Rightarrow> json \<Rightarrow> bool \<Rightarrow> json" where
  "transformObjectKeys f v deep =
     (case v of
        JObj kvs \<Rightarrow> (if deep then transformKeys f v else renameKeys f v)
      | _ \<Rightarrow> JObj [])"

text \<open>
  Modelled from the spec: \<^verbatim>\<open>Client.transformers.omit(keys, obj)\<close>, of the same package,
  is a copy of \<open>obj\<close> without the properties named in \<open>keys\<close>. The spec has missing
  fields "degrade gracefully", so for a value without properties (the absent embedded
  user of a member response) it is the empty object.
\<close>

fun omit :: "string list \<Rightarrow> json \<Rightarrow> json" where
  "omit keys (JObj kvs) = JObj (filter (\<lambda>kv. fst kv \<notin> set keys) kvs)"
| "omit keys v = JObj []"

section \<open>The transcoders\<close>

text \<open>
  \<^verbatim>\<open>apiToConversation\<close> deletes \<^verbatim>\<open>_links\<close> from the response it is given before it
  converts it, so the model returns the response as the call leaves it together with the
  conversation: \<open>Inr (response', conversation)\<close>. The other three transcoders have no
  assignment to their argument or to anything reached from it, and return their result
  only. The assignment \<^verbatim>\<open>conversation.properties.customData = customData\<close> changes the
  object \<^verbatim>\<open>conversation.properties\<close> in place; on values that is an update of the inner
  object followed by an update of the field that holds it.
\<close>

definition apiToConversation :: "(string \<Rightarrow> string) \<Rightarrow> json \<Rightarrow> error + (json \<times> json)" where
  "apiToConversation camelCase response =
     (case getProp response ''properties'' of
        Inl e \<Rightarrow> Inl e
      | Inr properties \<Rightarrow>
          let customData = optProp properties ''custom_data'';
              response' = deleteProp response ''_links'';
              conversation = transformObjectKeys camelCase response' True
          in if truthy (optProp (optProp conversation ''properties'') ''customData'')
                \<and> truthy customData
             then (case setProp (optProp conversation ''properties'') ''customData'' customData of
                     Inl e \<Rightarrow> Inl e
                   | Inr properties' \<Rightarrow>
                       (case setProp conversation ''properties'' properties' of
                          Inl e \<Rightarrow> Inl e
                        | Inr conversation' \<Rightarrow> Inr (response', conversation')))
             else Inr (response', conversation))"

text \<open>The keys \<^verbatim>\<open>conversationToApi\<close> gives to \<^verbatim>\<open>omit\<close>.\<close>

definition serverOwned :: "string list" where
  "serverOwned = [''id'', ''sequenceNumber'', ''timestamp'', ''state'']"

definition conversationToApi :: "(string \<Rightarrow> string) \<Rightarrow> json \<Rightarrow> error + json" where
  "conversationToApi snakeCase conversation =
     (case getProp conversation ''properties'' of
        Inl e \<Rightarrow> Inl e
      | Inr properties \<Rightarrow>
          let customData = optProp properties ''customData'';
              apiConversation = transformObjectKeys snakeCase (omit serverOwned conversation) True
          in if truthy (optProp (optProp apiConversation ''properties'') ''custom_data'')
                \<and> truthy customData
             then (case setProp (optProp apiConversation ''properties'') ''custom_data'' customData of
                     Inl e \<Rightarrow> Inl e
                   | Inr properties' \<Rightarrow> setProp apiConversation ''properties'' properties')
             else Inr apiConversation)"

definition apiToMember :: "(string \<Rightarrow> string) \<Rightarrow> json \<Rightarrow> error + json" where
  "apiToMember camelCase response =
     (let top = transformObjectKeys camelCase (omit [''_embedded'', ''_links''] response) True
      in case getProp response ''_embedded'' of
           Inl e \<Rightarrow> Inl e
         | Inr embedded \<Rightarrow>
             let user = transformObjectKeys camelCase (omit [''_links''] (optProp embedded ''user'')) True
             in Inr (JObj (objectFromEntries
                             (spread top @ [(''user'', JObj (objectFromEntries (spread user)))]))))"

definition memberToApi :: "(string \<Rightarrow> string) \<Rightarrow> json \<Rightarrow> error + json" where
  "memberToApi snakeCase member =
     (let top = transformObjectKeys snakeCase
                  (omit [''id'', ''timestamp'', ''conversationId'', ''initiator'', ''invitedBy''] member)
                  True
      in case getProp member ''user'' of
           Inl e \<Rightarrow> Inl e
         | Inr user \<Rightarrow>
             (case getProp user ''id'' of
                Inl e \<Rightarrow> Inl e
              | Inr userId \<Rightarrow>
                  (case getProp user ''name'' of
                     Inl e \<Rightarrow> Inl e
                   | Inr userName \<Rightarrow>
                       (case getProp member ''invitedBy'' of
                          Inl e \<Rightarrow> Inl e
                        | Inr invitedBy \<Rightarrow>
                            Inr (JObj (objectFromEntries
                                  (spread top @
                                   [(''user'', JObj [(''id'', userId), (''name'', userName)]),
                                    (''member_id_inviting'', invitedBy)])))))))"

text \<open>
  The callers of \<^verbatim>\<open>apiToConversation\<close> keep only the conversation it returns; the
  response object they pass is \<^verbatim>\<open>resp.data\<close> or an item of it, which they drop.
\<close>

definition conversationOf :: "(string \<Rightarrow> string) \<Rightarrow> json \<Rightarrow> error + json" where
  "conversationOf camelCase response = map_sum id snd (apiToConversation camelCase response)"

section \<open>The transport\<close>

text \<open>
  The HTTP stack is outside the client. A request is what the client hands to
  \<^verbatim>\<open>sendGetRequest\<close>, \<^verbatim>\<open>sendPostRequest\<close>, \<^verbatim>\<open>sendPutRequest\<close>, \<^verbatim>\<open>sendPatchRequest\<close> or
  \<^verbatim>\<open>sendDeleteRequest\<close>: the method, the URL and the object passed with it (the query
  parameters of a GET, the body otherwise). A server answers a request, knowing the
  requests made before it, with the parsed body \<^verbatim>\<open>resp.data\<close> or with the error the
  transport raises. Every operation takes the list of requests made so far and returns it
  extended, so the round trips of a call can be counted.
\<close>

datatype http_method = GET | POST | PUT | PATCH | DELETE

record request =
  reqMethod :: http_method
  reqUrl :: string
  reqPayload :: "json option"

type_synonym server = "request list \<Rightarrow> request \<Rightarrow> error + json"

definition sendRequest :: "server \<Rightarrow> request list \<Rightarrow> request \<Rightarrow> (error + json) \<times> request list" where
  "sendRequest srv log req = (srv log req, log @ [req])"

text \<open>A server that plays back a fixed list of responses, as the stub of the tests does.\<close>

definition scripted :: "json list \<Rightarrow> server" where
  "scripted rs log req = (if length log < length rs then Inr (rs ! length log) else Inl TransportError)"

section \<open>Pages\<close>

text \<open>
  \<^verbatim>\<open>ConversationPage\<close> and \<^verbatim>\<open>MemberPage\<close> differ only in the name of the item field
  (\<^verbatim>\<open>conversations\<close>, \<^verbatim>\<open>members\<close>); \<open>pageItems\<close> stands for both.
\<close>

record page =
  pageItems :: "json list"
  pageSize :: json
  links :: json

text \<open>\<^verbatim>\<open>(v || []).map(f)\<close>: a truthy \<open>v\<close> that is not an array has no \<^verbatim>\<open>map\<close> method.\<close>

fun mapE :: "('a \<Rightarrow> error + 'b) \<Rightarrow> 'a list \<Rightarrow> error + 'b list" where
  "mapE f [] = Inr []"
| "mapE f (x # xs) =
     (case f x of
        Inl e \<Rightarrow> Inl e
      | Inr y \<Rightarrow> (case mapE f xs of Inl e \<Rightarrow> Inl e | Inr ys \<Rightarrow> Inr (y # ys)))"

definition orEmptyMap :: "(json \<Rightarrow> error + json) \<Rightarrow> json \<Rightarrow> error + json list" where
  "orEmptyMap f v =
     (if truthy v then (case v of JArr xs \<Rightarrow> mapE f xs | _ \<Rightarrow> Inl TypeError) else Inr [])"

definition toPage :: "(json \<Rightarrow> error + json) \<Rightarrow> string \<Rightarrow> json \<Rightarrow> error + page" where
  "toPage transcode field data =
     (case getProp data ''_embedded'' of
        Inl e \<Rightarrow> Inl e
      | Inr embedded \<Rightarrow>
          (case orEmptyMap transcode (optProp embedded field) of
             Inl e \<Rightarrow> Inl e
           | Inr xs \<Rightarrow>
               Inr \<lparr>pageItems = xs, pageSize = optProp data ''page_size'',
                    links = optProp data ''_links''\<rparr>))"

definition getConversationPage ::
  "(string \<Rightarrow> string) \<Rightarrow> (string \<Rightarrow> string) \<Rightarrow> server \<Rightarrow> string \<Rightarrow> request list \<Rightarrow> json
     \<Rightarrow> (error + page) \<times> request list" where
  "getConversationPage camelCase snakeCase srv apiHost log filterParams =
     (case sendRequest srv log
             \<lparr>reqMethod = GET, reqUrl = apiHost @ ''/v1/conversations'',
              reqPayload = Some (transformObjectKeys snakeCase filterParams False)\<rparr> of
        (Inl e, log') \<Rightarrow> (Inl e, log')
      | (Inr data, log') \<Rightarrow>
          (toPage (conversationOf camelCase) ''conversations'' data, log'))"

text \<open>A parameter declared with the default \<^verbatim>\<open>= {}\<close>: an argument \<^verbatim>\<open>undefined\<close> is a new empty object.\<close>

definition orEmptyObject :: "json \<Rightarrow> json" where
  "orEmptyObject v = (if v = JUndefined then JObj [] else v)"

definition getMemberPage ::
  "(string \<Rightarrow> string) \<Rightarrow> (string \<Rightarrow> string) \<Rightarrow> server \<Rightarrow> string \<Rightarrow> request list \<Rightarrow> string \<Rightarrow> json
     \<Rightarrow> (error + page) \<times> request list" where
  "getMemberPage camelCase snakeCase srv apiHost log conversationId filterParams =
     (case sendRequest srv log
             \<lparr>reqMethod = GET,
              reqUrl = apiHost @ ''/v1/conversations/'' @ conversationId @ ''/members'',
              reqPayload = Some (transformObjectKeys snakeCase (orEmptyObject filterParams) False)\<rparr> of
        (Inl e, log') \<Rightarrow> (Inl e, log')
      | (Inr data, log') \<Rightarrow> (toPage (apiToMember camelCase) ''members'' data, log'))"

section \<open>Single-item operations\<close>

text \<open>
  Each operation builds its request (the transcoding of the argument is evaluated before
  the request is sent, so a transcoding error means no request), awaits the response and
  transcodes \<^verbatim>\<open>resp.data\<close>. The identifiers spliced into a URL are strings by their
  declared type, but \<^verbatim>\<open>updateConversation\<close> splices \<^verbatim>\<open>conversation.id\<close>, which may be
  anything: for a value that is not a string the text is the language's string
  conversion, the parameter \<open>toStr\<close>.
\<close>

definition templateText :: "(json \<Rightarrow> string) \<Rightarrow> json \<Rightarrow> string" where
  "templateText toStr v = (case v of JStr s \<Rightarrow> s | _ \<Rightarrow> toStr v)"

definition createConversation ::
  "(string \<Rightarrow> string) \<Rightarrow> (string \<Rightarrow> string) \<Rightarrow> server \<Rightarrow> string \<Rightarrow> request list \<Rightarrow> json
     \<Rightarrow> (error + json) \<times> request list" where
  "createConversation camelCase snakeCase srv apiHost log conversation =
     (case conversationToApi snakeCase conversation of
        Inl e \<Rightarrow> (Inl e, log)
      | Inr body \<Rightarrow>
          (case sendRequest srv log
                  \<lparr>reqMethod = POST, reqUrl = apiHost @ ''/v1/conversations'',
                   reqPayload = Some body\<rparr> of
             (Inl e, log') \<Rightarrow> (Inl e, log')
           | (Inr data, log') \<Rightarrow> (conversationOf camelCase data, log')))"

definition getConversation ::
  "(string \<Rightarrow> string) \<Rightarrow> server \<Rightarrow> string \<Rightarrow> request list \<Rightarrow> string
     \<Rightarrow> (error + json) \<times> request list" where
  "getConversation camelCase srv apiHost log conversationId =
     (case sendRequest srv log
             \<lparr>reqMethod = GET, reqUrl = apiHost @ ''/v1/conversations/'' @ conversationId,
              reqPayload = None\<rparr> of
        (Inl e, log') \<Rightarrow> (Inl e, log')
      | (Inr data, log') \<Rightarrow> (conversationOf camelCase data, log'))"

definition updateConversation ::
  "(string \<Rightarrow> string) \<Rightarrow> (string \<Rightarrow> string) \<Rightarrow> (json \<Rightarrow> string) \<Rightarrow> server \<Rightarrow> string \<Rightarrow> request list
     \<Rightarrow> json \<Rightarrow> (error + json) \<times> request list" where
  "updateConversation camelCase snakeCase toStr srv apiHost log conversation =
     (case getProp conversation ''id'' of
        Inl e \<Rightarrow> (Inl e, log)
      | Inr conversationId \<Rightarrow>
          (case conversationToApi snakeCase conversation of
             Inl e \<Rightarrow> (Inl e, log)
           | Inr body \<Rightarrow>
               (case sendRequest srv log
                       \<lparr>reqMethod = PUT,
                        reqUrl = apiHost @ ''/v1/conversations/'' @ templateText toStr conversationId,
                        reqPayload = Some body\<rparr> of
                  (Inl e, log') \<Rightarrow> (Inl e, log')
                | (Inr data, log') \<Rightarrow> (conversationOf camelCase data, log'))))"

definition deleteConversation ::
  "server \<Rightarrow> string \<Rightarrow> request list \<Rightarrow> string \<Rightarrow> (error + json) \<times> request list" where
  "deleteConversation srv apiHost log conversationId =
     (case sendRequest srv log
             \<lparr>reqMethod = DELETE, reqUrl = apiHost @ ''/v1/conversations/'' @ conversationId,
              reqPayload = None\<rparr> of
        (Inl e, log') \<Rightarrow> (Inl e, log')
      | (Inr data, log') \<Rightarrow> (Inr JUndefined, log'))"

definition createMember ::
  "(string \<Rightarrow> string) \<Rightarrow> (string \<Rightarrow> string) \<Rightarrow> server \<Rightarrow> string \<Rightarrow> request list \<Rightarrow> string \<Rightarrow> json
     \<Rightarrow> (error + json) \<times> request list" where
  "createMember camelCase snakeCase srv apiHost log conversationId member =
     (case memberToApi snakeCase member of
        Inl e \<Rightarrow> (Inl e, log)
      | Inr body \<Rightarrow>
          (case sendRequest srv log
                  \<lparr>reqMethod = POST,
                   reqUrl = apiHost @ ''/v1/conversations/'' @ conversationId @ ''/members'',
                   reqPayload = Some body\<rparr> of
             (Inl e, log') \<Rightarrow> (Inl e, log')
           | (Inr data, log') \<Rightarrow> (apiToMember camelCase data, log')))"

definition getMember ::
  "(string \<Rightarrow> string) \<Rightarrow> server \<Rightarrow> string \<Rightarrow> request list \<Rightarrow> string \<Rightarrow> string
     \<Rightarrow> (error + json) \<times> request list" where
  "getMember camelCase srv apiHost log conversationId memberId =
     (case sendRequest srv log
             \<lparr>reqMethod = GET,
              reqUrl = apiHost @ ''/v1/conversations/'' @ conversationId @ ''/members/'' @ memberId,
              reqPayload = None\<rparr> of
        (Inl e, log') \<Rightarrow> (Inl e, log')
      | (Inr data, log') \<Rightarrow> (apiToMember camelCase data, log'))"

definition getMe ::
  "(string \<Rightarrow> string) \<Rightarrow> server \<Rightarrow> string \<Rightarrow> request list \<Rightarrow> string
     \<Rightarrow> (error + json) \<times> request list" where
  "getMe camelCase srv apiHost log conversationId =
     getMember camelCase srv apiHost log conversationId ''me''"

definition updateMember ::
  "(string \<Rightarrow> string) \<Rightarrow> server \<Rightarrow> string \<Rightarrow> request list \<Rightarrow> string \<Rightarrow> string \<Rightarrow> json
     \<Rightarrow> (error + json) \<times> request list" where
  "updateMember camelCase srv apiHost log conversationId memberId params =
     (case sendRequest srv log
             \<lparr>reqMethod = PATCH,
              reqUrl = apiHost @ ''/v1/conversations/'' @ conversationId @ ''/members/'' @ memberId,
              reqPayload = Some params\<rparr> of
        (Inl e, log') \<Rightarrow> (Inl e, log')
      | (Inr data, log') \<Rightarrow> (apiToMember camelCase data, log'))"

section \<open>Listing all items\<close>

text \<open>
  \<^verbatim>\<open>new URL(href).searchParams.get(name)\<close> belongs to the platform; it is the parameter
  \<open>searchParam\<close>, which raises on a string that is not an absolute URL and returns
  \<open>None\<close> (JavaScript's \<^verbatim>\<open>null\<close>) when the query string has no such parameter. A \<open>href\<close>
  that is not a string is never an absolute URL.
\<close>

type_synonym search_param = "string \<Rightarrow> string \<Rightarrow> error + string option"

definition urlCursor :: "search_param \<Rightarrow> json \<Rightarrow> error + json" where
  "urlCursor searchParam href =
     (case href of
        JStr h \<Rightarrow>
          (case searchParam h ''cursor'' of
             Inl e \<Rightarrow> Inl e
           | Inr None \<Rightarrow> Inr JNull
           | Inr (Some c) \<Rightarrow> Inr (JStr c))
      | _ \<Rightarrow> Inl TypeError)"

text \<open>
  \<^verbatim>\<open>listAllConversations\<close> and \<^verbatim>\<open>listAllMembers\<close> are the same \<^verbatim>\<open>do ... while (next)\<close>
  loop around their page fetcher. The model drains the generator: it collects what the
  loop yields, how it ends (\<open>None\<close>: the generator returns; \<open>Some e\<close>: it raises \<open>e\<close>),
  the filter object as the loop leaves it, and the requests made. \<open>listAllBody\<close> is one
  pass through the loop body: \<open>Inr\<close> is the state with which the loop goes round again,
  \<open>Inl\<close> the outcome when it stops.
\<close>

record listing =
  yielded :: "json list"
  completion :: "error option"
  filterAfter :: json
  requests :: "request list"

type_synonym fetcher = "request list \<Rightarrow> json \<Rightarrow> (error + page) \<times> request list"

definition listAllBody ::
  "search_param \<Rightarrow> fetcher \<Rightarrow> request list \<times> json \<times> json list
     \<Rightarrow> listing + (request list \<times> json \<times> json list)" where
  "listAllBody searchParam fetch st =
     (case st of (log, params, acc) \<Rightarrow>
        (case fetch log params of
           (Inl e, log') \<Rightarrow>
             Inl \<lparr>yielded = acc, completion = Some e, filterAfter = params, requests = log'\<rparr>
         | (Inr resp, log') \<Rightarrow>
             let acc' = acc @ pageItems resp
             in (case (if truthy (optProp (links resp) ''next'')
                       then urlCursor searchParam (optProp (optProp (links resp) ''next'') ''href'')
                       else Inr JNull) of
                   Inl e \<Rightarrow>
                     Inl \<lparr>yielded = acc', completion = Some e, filterAfter = params,
                          requests = log'\<rparr>
                 | Inr next \<Rightarrow>
                     (case setProp params ''cursor'' (if truthy next then next else JStr []) of
                        Inl e \<Rightarrow>
                          Inl \<lparr>yielded = acc', completion = Some e, filterAfter = params,
                               requests = log'\<rparr>
                      | Inr params' \<Rightarrow>
                          if truthy next then Inr (log', params', acc')
                          else Inl \<lparr>yielded = acc', completion = None, filterAfter = params',
                                    requests = log'\<rparr>))))"

partial_function (option) listAllLoop ::
  "search_param \<Rightarrow> fetcher \<Rightarrow> request list \<times> json \<times> json list \<Rightarrow> listing option" where
  "listAllLoop searchParam fetch st =
     (case listAllBody searchParam fetch st of
        Inl out \<Rightarrow> Some out
      | Inr st' \<Rightarrow> listAllLoop searchParam fetch st')"

text \<open>
  The page fetchers the two generators call: \<^verbatim>\<open>this.getConversationPage(params)\<close> and
  \<^verbatim>\<open>this.getMemberPage(conversationId, params)\<close>. Both generators declare their filter
  as \<^verbatim>\<open>params = {}\<close> and start the loop with no item yielded.
\<close>

definition conversationFetcher ::
  "(string \<Rightarrow> string) \<Rightarrow> (string \<Rightarrow> string) \<Rightarrow> server \<Rightarrow> string \<Rightarrow> fetcher" where
  "conversationFetcher camelCase snakeCase srv apiHost log params =
     getConversationPage camelCase snakeCase srv apiHost log params"


definition listAllConversations ::
  "(string \<Rightarrow> string) \<Rightarrow> (string \<Rightarrow> string) \<Rightarrow> search_param \<Rightarrow> server \<Rightarrow> string \<Rightarrow> request list
     \<Rightarrow> json \<Rightarrow> listing option" where
  "listAllConversations camelCase snakeCase searchParam srv apiHost log params =
     listAllLoop searchParam (conversationFetcher camelCase snakeCase srv apiHost)
       (log, orEmptyObject params, [])"


section \<open>Well-formed objects and the fixtures of the tests\<close>

text \<open>
  A JavaScript object has each key once, and the declared wire and domain shapes have no
  two fields with the same converted name. \<open>soleSource f kvs k k'\<close> says so for one
  field: \<open>f\<close> converts \<open>k\<close> to \<open>k'\<close>, the keys of \<open>kvs\<close> are distinct, and no other key
  of \<open>kvs\<close> is converted to \<open>k'\<close>.
\<close>

definition soleSource :: "(string \<Rightarrow> string) \<Rightarrow> (string \<times> json) list \<Rightarrow> string \<Rightarrow> string \<Rightarrow> bool" where
  "soleSource f kvs k k' \<longleftrightarrow>
     f k = k' \<and> distinct (map fst kvs) \<and> (\<forall>x \<in> fst ` set kvs. f x = k' \<longrightarrow> x = k)"

text \<open>
  The values of lodash's camelCase and snakeCase on the field names that occur in the
  tests of the package, and the identity on every other name. They stand for the
  parameters \<open>camelCase\<close> and \<open>snakeCase\<close> in the closed instances of the theorems.
\<close>

definition camelCaseNames :: "string \<Rightarrow> string" where
  "camelCaseNames k =
     (case map_of
        [(''display_name'', ''displayName''), (''image_url'', ''imageUrl''),
         (''sequence_number'', ''sequenceNumber''), (''custom_sort_key'', ''customSortKey''),
         (''custom_data'', ''customData''), (''baz_bat'', ''bazBat''),
         (''audio_settings'', ''audioSettings''), (''knocking_id'', ''knockingId''),
         (''invited_by'', ''invitedBy''), (''is_system'', ''isSystem''),
         (''user_id'', ''userId''), (''member_id'', ''memberId''),
         (''_links'', ''links''), (''_embedded'', ''embedded'')] k of
        Some k' \<Rightarrow> k'
      | None \<Rightarrow> k)"

definition snakeCaseNames :: "string \<Rightarrow> string" where
  "snakeCaseNames k =
     (case map_of
        [(''displayName'', ''display_name''), (''imageUrl'', ''image_url''),
         (''sequenceNumber'', ''sequence_number''), (''customSortKey'', ''custom_sort_key''),
         (''customData'', ''custom_data''), (''fizzBuzz'', ''fizz_buzz''),
         (''eventMask'', ''event_mask''), (''audioSettings'', ''audio_settings''),
         (''knockingId'', ''knocking_id''), (''invitedBy'', ''invited_by''),
         (''isSystem'', ''is_system''), (''userId'', ''user_id''),
         (''memberId'', ''member_id''), (''pageSize'', ''page_size''),
         (''dateStart'', ''date_start''), (''dateEnd'', ''date_end'')] k of
        Some k' \<Rightarrow> k'
      | None \<Rightarrow> k)"

text \<open>The query-string reader on the one link with a query string in the tests.\<close>

definition searchParamOfTests :: search_param where
  "searchParamOfTests href name =
     (if href = ''https://api.nexmo.com/v1/conversations?cursor=next'' \<and> name = ''cursor''
      then Inr (Some ''next'') else Inr None)"

text \<open>
  The fixtures of \<^verbatim>\<open>__tests__/common.ts\<close>: the conversation to create, the wire response
  of the server, the domain conversation expected from it, and the member.
\<close>

definition customDataFixture :: json where
  "customDataFixture =
     JObj [(''foo'', JStr ''bar''), (''fizzBuzz'', JNum 123), (''baz_bat'', JBool True)]"

definition domainProperties :: "(string \<times> json) list" where
  "domainProperties =
     [(''ttl'', JNum 86400), (''type'', JStr ''public''),
      (''customSortKey'', JStr ''foo''), (''customData'', customDataFixture)]"

definition wireProperties :: "(string \<times> json) list" where
  "wireProperties =
     [(''ttl'', JNum 86400), (''type'', JStr ''public''),
      (''custom_sort_key'', JStr ''foo''), (''custom_data'', customDataFixture)]"

definition conversationToCreateFields :: "(string \<times> json) list" where
  "conversationToCreateFields =
     [(''name'', JStr ''New Conversation''),
      (''displayName'', JStr ''New Conversation''),
      (''imageUrl'', JStr ''https://example.com/image.png''),
      (''properties'', JObj domainProperties),
      (''numbers'', JArr [JObj [(''type'', JStr ''phone''), (''number'', JStr ''447700900000'')]]),
      (''callback'',
         JObj [(''url'', JStr ''https://example.com/callback''),
               (''eventMask'', JStr ''audio:play''), (''params'', JObj []),
               (''method'', JStr ''POST'')])]"

definition conversationToCreate :: json where
  "conversationToCreate = JObj conversationToCreateFields"

definition conversationResponseFields :: "(string \<times> json) list" where
  "conversationResponseFields =
     [(''id'', JStr ''CON-00000000-0000-0000-0000-000000000001''),
      (''name'', JStr ''New Conversation''),
      (''display_name'', JStr ''New Conversation''),
      (''image_url'', JStr ''https://example.com/image.png''),
      (''state'', JStr ''ACTIVE''),
      (''sequence_number'', JNum 0),
      (''timestamp'',
         JObj [(''created'', JStr ''2024-01-17T13:45:56.000Z''),
               (''updated'', JStr ''2024-01-17T13:45:56.000Z'')]),
      (''properties'', JObj wireProperties),
      (''_links'',
         JObj [(''self'',
           JObj [(''href'', JStr ''https://api.nexmo.com/v1/conversations/undefined'')])])]"

definition conversationResponse :: json where
  "conversationResponse = JObj conversationResponseFields"

definition conversationFields :: "(string \<times> json) list" where
  "conversationFields =
     [(''id'', JStr ''CON-00000000-0000-0000-0000-000000000001''),
      (''name'', JStr ''New Conversation''),
      (''displayName'', JStr ''New Conversation''),
      (''imageUrl'', JStr ''https://example.com/image.png''),
      (''state'', JStr ''ACTIVE''),
      (''sequenceNumber'', JNum 0),
      (''properties'', JObj domainProperties),
      (''timestamp'',
         JObj [(''created'', JStr ''2024-01-17T13:45:56.000Z''),
               (''updated'', JStr ''2024-01-17T13:45:56.000Z'')])]"

definition conversationFixture :: json where
  "conversationFixture = JObj conversationFields"

definition memberResponse :: json where
  "memberResponse =
     JObj [(''id'', JStr ''MEM-00000000-0000-0000-0000-000000000001''),
           (''state'', JStr ''JOINED''),
           (''_embedded'',
              JObj [(''user'',
                       JObj [(''id'', JStr ''USR-00000000-0000-0000-0000-000000000001''),
                             (''name'', JStr ''Alice Smith''),
                             (''display_name'', JStr ''Alice'')]),
                    (''_links'',
                       JObj [(''self'',
                         JObj [(''href'',
                           JStr ''https://api.nexmo.com/v1/users/USR-00000000-0000-0000-0000-000000000001'')])])]),
           (''timestamp'',
              JObj [(''invited'', JStr ''2024-01-17T13:45:56.000Z''),
                    (''joined'', JStr ''2024-01-17T13:45:56.000Z'')]),
           (''initiator'',
              JObj [(''joined'',
                JObj [(''is_system'', JBool True),
                      (''user_id'', JStr ''USR-00000000-0000-0000-0000-000000000002''),
                      (''member_id'', JStr ''MEM-00000000-0000-0000-0000-000000000002'')])]),
           (''channel'', JObj [(''type'', JStr ''phone''), (''number'', JStr ''447700900000'')]),
           (''media'',
              JObj [(''audio_settings'',
                       JObj [(''enabled'', JBool True), (''earmuffed'', JBool False),
                             (''muted'', JBool False)]),
                    (''audio'', JBool True)]),
           (''knocking_id'', JStr ''MEM-00000000-0000-0000-0000-000000000003''),
           (''invited_by'', JStr ''USR-00000000-0000-0000-0000-000000000003''),
           (''_links'',
              JObj [(''self'',
                JObj [(''href'',
                  JStr ''https://api.nexmo.com/v1/conversations/CON-00000000-0000-0000-0000-000000000001/members/MEM-00000000-0000-0000-0000-000000000001'')])])]"

definition memberFixture :: json where
  "memberFixture =
     JObj [(''id'', JStr ''MEM-00000000-0000-0000-0000-000000000001''),
           (''state'', JStr ''JOINED''),
           (''user'',
              JObj [(''id'', JStr ''USR-00000000-0000-0000-0000-000000000001''),
                    (''name'', JStr ''Alice Smith''),
                    (''displayName'', JStr ''Alice'')]),
           (''timestamp'',
              JObj [(''invited'', JStr ''2024-01-17T13:45:56.000Z''),
                    (''joined'', JStr ''2024-01-17T13:45:56.000Z'')]),
           (''initiator'',
              JObj [(''joined'',
                JObj [(''isSystem'', JBool True),
                      (''userId'', JStr ''USR-00000000-0000-0000-0000-000000000002''),
                      (''memberId'', JStr ''MEM-00000000-0000-0000-0000-000000000002'')])]),
           (''channel'', JObj [(''type'', JStr ''phone''), (''number'', JStr ''447700900000'')]),
           (''media'',
              JObj [(''audioSettings'',
                       JObj [(''enabled'', JBool True), (''earmuffed'', JBool False),
                             (''muted'', JBool False)]),
                    (''audio'', JBool True)]),
           (''knockingId'', JStr ''MEM-00000000-0000-0000-0000-000000000003''),
           (''invitedBy'', JStr ''USR-00000000-0000-0000-0000-000000000003'')]"

text \<open>
  The page envelope the stub server of the tests returns: the page size, the embedded
  items under \<open>field\<close>, and the links, with a next link when there is a further page.
\<close>

definition pageEnvelope :: "string \<Rightarrow> json \<Rightarrow> json list \<Rightarrow> json \<Rightarrow> string option \<Rightarrow> json" where
  "pageEnvelope field n xs self nextHref =
     JObj [(''page_size'', n),
           (''_embedded'', JObj [(field, JArr xs)]),
           (''_links'',
              JObj ((''self'', self) #
                    (case nextHref of
                       None \<Rightarrow> []
                     | Some h \<Rightarrow> [(''next'', JObj [(''href'', JStr h)])])))]"

text \<open>
  The examples in the documentation comments of \<^verbatim>\<open>createMember\<close> and \<^verbatim>\<open>updateMember\<close>:
  \<^verbatim>\<open>createMember(CONVERSATION_ID, { name: 'My Member' })\<close> and
  \<^verbatim>\<open>updateMember(CONVERSATION_ID, MEMBER_ID, { state: MemberState.LEFT, from: USER_ID })\<close>.
\<close>

definition memberOfDocExample :: json where
  "memberOfDocExample = JObj [(''name'', JStr ''My Member'')]"

definition updateParamsOfDocExample :: json where
  "updateParamsOfDocExample =
     JObj [(''state'', JStr ''LEFT''),
           (''from'', JStr ''USR-00000000-0000-0000-0000-000000000001'')]"

text \<open>
  The second item of the listing test, \<^verbatim>\<open>{ ...conversationResponse, id: ... }\<close>, and the
  request bodies the create tests expect for the conversation to create and for the
  member.
\<close>

definition secondConversationResponse :: "(string \<times> json) list" where
  "secondConversationResponse =
     AList.update ''id'' (JStr ''CON-00000000-0000-0000-0000-000000000002'') conversationResponseFields"

definition createConversationBody :: json where
  "createConversationBody =
     JObj [(''name'', JStr ''New Conversation''),
           (''display_name'', JStr ''New Conversation''),
           (''image_url'', JStr ''https://example.com/image.png''),
           (''properties'',
              JObj [(''ttl'', JNum 86400), (''type'', JStr ''public''),
                    (''custom_sort_key'', JStr ''foo''), (''custom_data'', customDataFixture)]),
           (''numbers'', JArr [JObj [(''type'', JStr ''phone''), (''number'', JStr ''447700900000'')]]),
           (''callback'',
              JObj [(''url'', JStr ''https://example.com/callback''),
                    (''event_mask'', JStr ''audio:play''), (''params'', JObj []),
                    (''method'', JStr ''POST'')])]"

definition createMemberBody :: json where
  "createMemberBody =
     JObj [(''state'', JStr ''JOINED''),
           (''user'', JObj [(''id'', JStr ''USR-00000000-0000-0000-0000-000000000001''),
                            (''name'', JStr ''Alice Smith'')]),
           (''channel'', JObj [(''type'', JStr ''phone''), (''number'', JStr ''447700900000'')]),
           (''media'',
              JObj [(''audio_settings'',
                       JObj [(''enabled'', JBool True), (''earmuffed'', JBool False),
                             (''muted'', JBool False)]),
                    (''audio'', JBool True)]),
           (''knocking_id'', JStr ''MEM-00000000-0000-0000-0000-000000000003''),
           (''member_id_inviting'', JStr ''USR-00000000-0000-0000-0000-000000000003'')]"

section \<open>Objects as association lists\<close>

text \<open>
  An object built property by property is looked up like the list of its definitions
  read from the last one back, has the keys of that list, and has each key once.
\<close>

lemma map_of_fold_update:
  "map_of (fold (\<lambda>kv acc. AList.update (fst kv) (snd kv) acc) kvs acc) = map_of acc ++ map_of (rev kvs)"
proof (induction kvs arbitrary: acc)
  case Nil
  then show ?case by simp
next
  case (Cons kv kvs)
  have "map_of (fold (\<lambda>kv acc. AList.update (fst kv) (snd kv) acc) (kv # kvs) acc)
          = map_of (AList.update (fst kv) (snd kv) acc) ++ map_of (rev kvs)"
    using Cons.IH [of "AList.update (fst kv) (snd kv) acc"] by simp
  also have "\<dots> = (map_of acc)(fst kv \<mapsto> snd kv) ++ map_of (rev kvs)"
    by (simp add: update_conv')
  also have "\<dots> = map_of acc ++ map_of (rev (kv # kvs))"
    by (cases kv) (auto simp: map_add_def fun_eq_iff split: option.splits)
  finally show ?case .
qed

lemma map_of_objectFromEntries: "map_of (objectFromEntries kvs) = map_of (rev kvs)"
  by (simp add: objectFromEntries_def map_of_fold_update)

lemma keys_objectFromEntries: "fst ` set (objectFromEntries kvs) = fst ` set kvs"
proof -
  have "dom (map_of (objectFromEntries kvs)) = dom (map_of (rev kvs))"
    by (simp add: map_of_objectFromEntries)
  then show ?thesis by (simp add: dom_map_of_conv_image_fst)
qed

text \<open>The lookup of a renamed key, when no other key is renamed to it.\<close>

lemma map_of_rev_renamed:
  assumes "distinct (map fst kvs)"
      and "map_of kvs k = Some v"
      and "\<forall>k' \<in> fst ` set kvs. f k' = f k \<longrightarrow> k' = k"
  shows "map_of (rev (map (\<lambda>kv. (f (fst kv), g (snd kv))) kvs)) (f k) = Some (g v)"
  using assms
proof (induction kvs)
  case Nil
  then show ?case by simp
next
  case (Cons kv kvs)
  show ?case
  proof (cases "fst kv = k")
    case True
    then have v: "snd kv = v" using Cons.prems(2) by (cases kv) simp
    have "k \<notin> fst ` set kvs" using Cons.prems(1) True by auto
    moreover have "\<And>k'. k' \<in> fst ` set kvs \<Longrightarrow> f k' = f k \<Longrightarrow> k' = k"
      using Cons.prems(3) by auto
    ultimately have "\<forall>k' \<in> fst ` set kvs. f k' \<noteq> f k" by blast
    then have "map_of (rev (map (\<lambda>kv. (f (fst kv), g (snd kv))) kvs)) (f k) = None"
      by (force simp: map_of_eq_None_iff image_iff)
    then show ?thesis using True v by (simp add: map_add_Some_iff)
  next
    case False
    then have m: "map_of kvs k = Some v" using Cons.prems(2) by (cases kv) (simp split: if_splits)
    have d: "distinct (map fst kvs)" using Cons.prems(1) by simp
    have c: "\<forall>k' \<in> fst ` set kvs. f k' = f k \<longrightarrow> k' = k" using Cons.prems(3) by auto
    have "map_of (rev (map (\<lambda>kv. (f (fst kv), g (snd kv))) kvs)) (f k) = Some (g v)"
      by (rule Cons.IH [OF d m c])
    then show ?thesis by (simp add: map_add_Some_iff)
  qed
qed

lemma truthy_transformKeys: "truthy (transformKeys f v) = truthy v"
  by (cases v) simp_all

lemma falsy_transformKeys: "\<not> truthy v \<Longrightarrow> transformKeys f v = v"
  by (cases v) simp_all

lemma optProp_transformKeys:
  assumes "distinct (map fst kvs)" and "map_of kvs k = Some v"
      and "\<forall>k' \<in> fst ` set kvs. f k' = f k \<longrightarrow> k' = k"
  shows "optProp (transformKeys f (JObj kvs)) (f k) = transformKeys f v"
  using map_of_rev_renamed [OF assms, of "transformKeys f"]
  by (simp add: map_of_objectFromEntries)

lemma map_of_delete_other: "k \<noteq> d \<Longrightarrow> map_of (AList.delete d kvs) k = map_of kvs k"
  by (simp add: delete_conv')

lemma map_of_filter_keys:
  "k \<notin> set ks \<Longrightarrow> map_of (filter (\<lambda>kv. fst kv \<notin> set ks) kvs) k = map_of kvs k"
  by (induction kvs) auto

lemma keys_delete_subset: "k \<in> fst ` set (AList.delete d kvs) \<Longrightarrow> k \<in> fst ` set kvs"
  by (auto simp: AList.delete_eq)

section \<open>The custom data of a conversation\<close>

text \<open>
  Both conversation transcoders read the custom data before the structural conversion
  and put the value they read back afterwards. When the value is falsy the guard skips
  the assignment, and the converted value is then the value itself.
\<close>

lemma apiToConversation_customData:
  assumes cd: "camelCase ''custom_data'' = ''customData''"
      and pr: "camelCase ''properties'' = ''properties''"
      and dfs: "distinct (map fst flds)" and dps: "distinct (map fst props)"
      and p: "map_of flds ''properties'' = Some (JObj props)"
      and c: "map_of props ''custom_data'' = Some customData"
      and nf: "\<forall>k \<in> fst ` set flds. camelCase k = ''properties'' \<longrightarrow> k = ''properties''"
      and np: "\<forall>k \<in> fst ` set props. camelCase k = ''customData'' \<longrightarrow> k = ''custom_data''"
  shows "\<exists>r c. apiToConversation camelCase (JObj flds) = Inr (r, c)
               \<and> optProp (optProp c ''properties'') ''customData'' = customData"
proof -
  let ?fs = "AList.delete ''_links'' flds"
  have d': "distinct (map fst ?fs)" using dfs by (simp add: distinct_delete)
  have p': "map_of ?fs ''properties'' = Some (JObj props)"
    using p by (simp add: map_of_delete_other)
  have nf': "\<forall>k \<in> fst ` set ?fs. camelCase k = camelCase ''properties'' \<longrightarrow> k = ''properties''"
    using nf pr by (metis keys_delete_subset)
  have np': "\<forall>k \<in> fst ` set props. camelCase k = camelCase ''custom_data'' \<longrightarrow> k = ''custom_data''"
    using np cd by simp
  define conv where "conv = transformKeys camelCase (JObj ?fs)"
  define ps where "ps = transformKeys camelCase (JObj props)"
  have t: "optProp conv ''properties'' = ps"
    using optProp_transformKeys [OF d' p' nf'] pr by (simp only: conv_def ps_def)
  have i: "optProp ps ''customData'' = transformKeys camelCase customData"
    using optProp_transformKeys [OF dps c np'] cd by (simp only: ps_def)
  obtain cf where cf: "conv = JObj cf" by (simp add: conv_def)
  obtain pf where pf: "ps = JObj pf" by (simp add: ps_def)
  have g: "getProp (JObj flds) ''properties'' = Inr (JObj props)"
    by (simp add: getProp_def p)
  have o: "optProp (JObj props) ''custom_data'' = customData" by (simp add: c)
  have tk: "transformObjectKeys camelCase (deleteProp (JObj flds) ''_links'') True = conv"
    by (simp add: transformObjectKeys_def conv_def)
  have unfolded: "apiToConversation camelCase (JObj flds) =
     (if truthy (transformKeys camelCase customData) \<and> truthy customData
      then (case setProp ps ''customData'' customData of
              Inl e \<Rightarrow> Inl e
            | Inr properties' \<Rightarrow>
                (case setProp conv ''properties'' properties' of
                   Inl e \<Rightarrow> Inl e
                 | Inr conversation' \<Rightarrow> Inr (deleteProp (JObj flds) ''_links'', conversation')))
      else Inr (deleteProp (JObj flds) ''_links'', conv))"
    by (simp only: apiToConversation_def g o tk t i Let_def sum.case)
  show ?thesis
  proof (cases "truthy customData")
    case True
    then show ?thesis
      unfolding unfolded by (simp add: truthy_transformKeys cf pf update_conv')
  next
    case False
    then show ?thesis
      unfolding unfolded using t i by (simp add: falsy_transformKeys)
  qed
qed

lemma conversationToApi_customData:
  assumes cd: "snakeCase ''customData'' = ''custom_data''"
      and pr: "snakeCase ''properties'' = ''properties''"
      and dfs: "distinct (map fst flds)" and dps: "distinct (map fst props)"
      and p: "map_of flds ''properties'' = Some (JObj props)"
      and c: "map_of props ''customData'' = Some customData"
      and nf: "\<forall>k \<in> fst ` set flds. snakeCase k = ''properties'' \<longrightarrow> k = ''properties''"
      and np: "\<forall>k \<in> fst ` set props. snakeCase k = ''custom_data'' \<longrightarrow> k = ''customData''"
  shows "\<exists>api. conversationToApi snakeCase (JObj flds) = Inr api
               \<and> optProp (optProp api ''properties'') ''custom_data'' = customData"
proof -
  let ?fs = "filter (\<lambda>kv. fst kv \<notin> set serverOwned) flds"
  have d': "distinct (map fst ?fs)" using dfs by (simp add: distinct_map_filter)
  have "''properties'' \<notin> set serverOwned" by (simp add: serverOwned_def)
  then have p': "map_of ?fs ''properties'' = Some (JObj props)"
    using p by (simp add: map_of_filter_keys)
  have nf': "\<forall>k \<in> fst ` set ?fs. snakeCase k = snakeCase ''properties'' \<longrightarrow> k = ''properties''"
    using nf pr by auto
  have np': "\<forall>k \<in> fst ` set props. snakeCase k = snakeCase ''customData'' \<longrightarrow> k = ''customData''"
    using np cd by simp
  define api where "api = transformKeys snakeCase (JObj ?fs)"
  define ps where "ps = transformKeys snakeCase (JObj props)"
  have t: "optProp api ''properties'' = ps"
    using optProp_transformKeys [OF d' p' nf'] pr by (simp only: api_def ps_def)
  have i: "optProp ps ''custom_data'' = transformKeys snakeCase customData"
    using optProp_transformKeys [OF dps c np'] cd by (simp only: ps_def)
  obtain af where af: "api = JObj af" by (simp add: api_def)
  obtain pf where pf: "ps = JObj pf" by (simp add: ps_def)
  have g: "getProp (JObj flds) ''properties'' = Inr (JObj props)"
    by (simp add: getProp_def p)
  have o: "optProp (JObj props) ''customData'' = customData" by (simp add: c)
  have tk: "transformObjectKeys snakeCase (omit serverOwned (JObj flds)) True = api"
    by (simp add: transformObjectKeys_def api_def)
  have unfolded: "conversationToApi snakeCase (JObj flds) =
     (if truthy (transformKeys snakeCase customData) \<and> truthy customData
      then (case setProp ps ''custom_data'' customData of
              Inl e \<Rightarrow> Inl e
            | Inr properties' \<Rightarrow> setProp api ''properties'' properties')
      else Inr api)"
    by (simp only: conversationToApi_def g o tk t i Let_def sum.case)
  show ?thesis
  proof (cases "truthy customData")
    case True
    then show ?thesis
      unfolding unfolded by (simp add: truthy_transformKeys af pf update_conv')
  next
    case False
    then show ?thesis
      unfolding unfolded using t i by (simp add: falsy_transformKeys)
  qed
qed


section \<open>The fields of a conversation request\<close>

lemma keys_update_present: "k \<in> fst ` set al \<Longrightarrow> fst ` set (AList.update k v al) = fst ` set al"
proof -
  assume "k \<in> fst ` set al"
  then have "map fst (AList.update k v al) = map fst al" by (simp add: update_keys)
  then have "set (map fst (AList.update k v al)) = set (map fst al)" by simp
  then show ?thesis by simp
qed

lemma optProp_truthy_hasProp: "truthy (optProp (optProp (JObj kvs) k) k') \<Longrightarrow> k \<in> fst ` set kvs"
proof -
  assume "truthy (optProp (optProp (JObj kvs) k) k')"
  then obtain a where "map_of kvs k = Some a" by (cases "map_of kvs k") auto
  then have "(k, a) \<in> set kvs" by (rule map_of_SomeD)
  then show ?thesis by force
qed

lemma conversationToApi_keys:
  "\<exists>api. conversationToApi snakeCase (JObj flds) = Inr (JObj api)
         \<and> fst ` set api = snakeCase ` (fst ` set flds - set serverOwned)"
proof -
  let ?fs = "filter (\<lambda>kv. fst kv \<notin> set serverOwned) flds"
  define api where "api = objectFromEntries (map (\<lambda>kv. (snakeCase (fst kv), transformKeys snakeCase (snd kv))) ?fs)"
  have tk: "transformObjectKeys snakeCase (omit serverOwned (JObj flds)) True = JObj api"
    by (simp add: transformObjectKeys_def api_def)
  have keys: "fst ` set api = snakeCase ` (fst ` set flds - set serverOwned)"
    unfolding api_def keys_objectFromEntries by force
  have g: "getProp (JObj flds) ''properties'' = Inr (optProp (JObj flds) ''properties'')"
    by (simp add: getProp_def)
  have unfolded: "conversationToApi snakeCase (JObj flds) =
     (if truthy (optProp (optProp (JObj api) ''properties'') ''custom_data'')
         \<and> truthy (optProp (optProp (JObj flds) ''properties'') ''customData'')
      then (case setProp (optProp (JObj api) ''properties'') ''custom_data''
                   (optProp (optProp (JObj flds) ''properties'') ''customData'') of
              Inl e \<Rightarrow> Inl e
            | Inr properties' \<Rightarrow> setProp (JObj api) ''properties'' properties')
      else Inr (JObj api))"
    by (simp only: conversationToApi_def g tk Let_def sum.case)
  show ?thesis
  proof (cases "truthy (optProp (optProp (JObj api) ''properties'') ''custom_data'')
                \<and> truthy (optProp (optProp (JObj flds) ''properties'') ''customData'')")
    case False
    then have "conversationToApi snakeCase (JObj flds) = Inr (JObj api)"
      unfolding unfolded by (simp only: if_False)
    with keys show ?thesis by blast
  next
    case True
    then have pk: "''properties'' \<in> fst ` set api" by (blast dest: optProp_truthy_hasProp)
    from True obtain ps where ps: "optProp (JObj api) ''properties'' = JObj ps"
      by (cases "optProp (JObj api) ''properties''") simp_all
    have T1: "truthy (optProp (JObj ps) ''custom_data'')" using True ps by simp
    have "conversationToApi snakeCase (JObj flds) =
            Inr (JObj (AList.update ''properties''
                   (JObj (AList.update ''custom_data'' (optProp (optProp (JObj flds) ''properties'') ''customData'') ps)) api))"
      unfolding unfolded by (simp only: True T1 simp_thms if_True ps setProp.simps sum.case)
    with keys keys_update_present [OF pk] show ?thesis by simp
  qed
qed

section \<open>Pages and the listing loop\<close>

text \<open>A property that is not there reads as \<^verbatim>\<open>undefined\<close>, and an envelope without items is an empty page.\<close>

lemma optProp_absent: "\<not> hasProp v k \<Longrightarrow> optProp v k = JUndefined"
proof (cases v)
  case (JObj kvs)
  assume "\<not> hasProp v k"
  then have "map_of kvs k = None" using JObj by (simp add: map_of_eq_None_iff)
  then show ?thesis using JObj by simp
qed simp_all

lemma toPage_missing_items:
  assumes "\<not> hasProp (JObj env) ''_embedded'' \<or> \<not> hasProp (optProp (JObj env) ''_embedded'') field"
  shows "toPage transcode field (JObj env) =
           Inr \<lparr>pageItems = [], pageSize = optProp (JObj env) ''page_size'',
                links = optProp (JObj env) ''_links''\<rparr>"
proof -
  have "optProp (optProp (JObj env) ''_embedded'') field = JUndefined"
    using assms
  proof
    assume "\<not> hasProp (JObj env) ''_embedded''"
    then have "optProp (JObj env) ''_embedded'' = JUndefined" by (rule optProp_absent)
    then show ?thesis by simp
  next
    assume "\<not> hasProp (optProp (JObj env) ''_embedded'') field"
    then show ?thesis by (rule optProp_absent)
  qed
  then show ?thesis
    by (simp add: toPage_def getProp_def orEmptyMap_def)
qed





text \<open>\<^verbatim>\<open>apiToConversation\<close> raises no error on an object.\<close>

lemma apiToConversation_object: "\<exists>r c. apiToConversation camelCase (JObj flds) = Inr (r, c)"
proof -
  define conv where "conv = transformObjectKeys camelCase (deleteProp (JObj flds) ''_links'') True"
  define cd where "cd = optProp (optProp (JObj flds) ''properties'') ''custom_data''"
  obtain cf where cf: "conv = JObj cf" by (simp add: conv_def transformObjectKeys_def)
  have g: "getProp (JObj flds) ''properties'' = Inr (optProp (JObj flds) ''properties'')"
    by (simp add: getProp_def)
  have unfolded: "apiToConversation camelCase (JObj flds) =
     (if truthy (optProp (optProp conv ''properties'') ''customData'') \<and> truthy cd
      then (case setProp (optProp conv ''properties'') ''customData'' cd of
              Inl e \<Rightarrow> Inl e
            | Inr properties' \<Rightarrow>
                (case setProp conv ''properties'' properties' of
                   Inl e \<Rightarrow> Inl e
                 | Inr conversation' \<Rightarrow> Inr (deleteProp (JObj flds) ''_links'', conversation')))
      else Inr (deleteProp (JObj flds) ''_links'', conv))"
    by (simp only: apiToConversation_def g Let_def sum.case conv_def cd_def)
  show ?thesis
  proof (cases "optProp conv ''properties''")
    case (JObj ps)
    then show ?thesis unfolding unfolded using cf by simp
  qed (simp_all add: unfolded)
qed

text \<open>The two passes of a listing whose server has two pages of one item each.\<close>

lemma conversationFetcher_first:
  assumes c: "conversationOf camelCase itemA = Inr convA"
      and srv: "srv log \<lparr>reqMethod = GET, reqUrl = apiHost @ ''/v1/conversations'',
                       reqPayload = Some (transformObjectKeys snakeCase (JObj ps) False)\<rparr>
                 = Inr (pageEnvelope ''conversations'' sizeA [itemA] selfA (Some href))"
  shows "conversationFetcher camelCase snakeCase srv apiHost log (JObj ps)
             = (Inr \<lparr>pageItems = [convA], pageSize = sizeA,
                     links = JObj [(''self'', selfA), (''next'', JObj [(''href'', JStr href)])]\<rparr>,
                log @ [\<lparr>reqMethod = GET, reqUrl = apiHost @ ''/v1/conversations'',
                          reqPayload = Some (transformObjectKeys snakeCase (JObj ps) False)\<rparr>])"
proof -
  have page: "toPage (conversationOf camelCase) ''conversations''
                (pageEnvelope ''conversations'' sizeA [itemA] selfA (Some href))
              = Inr \<lparr>pageItems = [convA], pageSize = sizeA,
                     links = JObj [(''self'', selfA), (''next'', JObj [(''href'', JStr href)])]\<rparr>"
    by (simp add: toPage_def pageEnvelope_def getProp_def orEmptyMap_def c)
  show ?thesis
    by (simp add: conversationFetcher_def getConversationPage_def sendRequest_def srv page)
qed

lemma first_page:
  assumes sp: "searchParam href ''cursor'' = Inr (Some cur)" and cur: "cur \<noteq> []"
      and convA: "conversationOf camelCase itemA = Inr convA"
      and srv: "srv log \<lparr>reqMethod = GET, reqUrl = apiHost @ ''/v1/conversations'',
                       reqPayload = Some (transformObjectKeys snakeCase (JObj ps) False)\<rparr>
                 = Inr (pageEnvelope ''conversations'' sizeA [itemA] selfA (Some href))"
  shows "listAllBody searchParam (conversationFetcher camelCase snakeCase srv apiHost) (log, JObj ps, acc)
           = Inr (log @ [\<lparr>reqMethod = GET, reqUrl = apiHost @ ''/v1/conversations'',
                          reqPayload = Some (transformObjectKeys snakeCase (JObj ps) False)\<rparr>],
                  JObj (AList.update ''cursor'' (JStr cur) ps), acc @ [convA])"
proof -
  have f: "conversationFetcher camelCase snakeCase srv apiHost log (JObj ps)
             = (Inr \<lparr>pageItems = [convA], pageSize = sizeA,
                     links = JObj [(''self'', selfA), (''next'', JObj [(''href'', JStr href)])]\<rparr>,
                log @ [\<lparr>reqMethod = GET, reqUrl = apiHost @ ''/v1/conversations'',
                          reqPayload = Some (transformObjectKeys snakeCase (JObj ps) False)\<rparr>])"
    using convA srv by (rule conversationFetcher_first)
  show ?thesis
    by (simp add: listAllBody_def f Let_def urlCursor_def sp cur)
qed

lemma last_page:
  assumes convB: "conversationOf camelCase itemB = Inr convB"
      and srv: "srv log \<lparr>reqMethod = GET, reqUrl = apiHost @ ''/v1/conversations'',
                       reqPayload = Some (transformObjectKeys snakeCase (JObj ps) False)\<rparr>
                 = Inr (pageEnvelope ''conversations'' sizeB [itemB] selfB None)"
  shows "listAllBody searchParam (conversationFetcher camelCase snakeCase srv apiHost) (log, JObj ps, acc)
           = Inl \<lparr>yielded = acc @ [convB], completion = None,
                  filterAfter = JObj (AList.update ''cursor'' (JStr []) ps),
                  requests = log @ [\<lparr>reqMethod = GET, reqUrl = apiHost @ ''/v1/conversations'',
                          reqPayload = Some (transformObjectKeys snakeCase (JObj ps) False)\<rparr>]\<rparr>"
proof -
  have page: "toPage (conversationOf camelCase) ''conversations''
                (pageEnvelope ''conversations'' sizeB [itemB] selfB None)
              = Inr \<lparr>pageItems = [convB], pageSize = sizeB, links = JObj [(''self'', selfB)]\<rparr>"
    by (simp add: toPage_def pageEnvelope_def getProp_def orEmptyMap_def convB)
  have f: "conversationFetcher camelCase snakeCase srv apiHost log (JObj ps)
             = (Inr \<lparr>pageItems = [convB], pageSize = sizeB, links = JObj [(''self'', selfB)]\<rparr>,
                log @ [\<lparr>reqMethod = GET, reqUrl = apiHost @ ''/v1/conversations'',
                          reqPayload = Some (transformObjectKeys snakeCase (JObj ps) False)\<rparr>])"
    by (simp add: conversationFetcher_def getConversationPage_def sendRequest_def srv page)
  show ?thesis
    by (simp add: listAllBody_def f Let_def)
qed

lemma two_page_listing:
  assumes sc: "snakeCase ''cursor'' = ''cursor''"
      and sp: "searchParam href ''cursor'' = Inr (Some cur)" and cur: "cur \<noteq> []"
      and convA: "conversationOf camelCase itemA = Inr convA"
      and convB: "conversationOf camelCase itemB = Inr convB"
  shows "listAllConversations camelCase snakeCase searchParam
           (scripted [pageEnvelope ''conversations'' sizeA [itemA] selfA (Some href),
                      pageEnvelope ''conversations'' sizeB [itemB] selfB None])
           apiHost [] (JObj [])
         = Some \<lparr>yielded = [convA, convB], completion = None,
                  filterAfter = JObj [(''cursor'', JStr [])],
                  requests =
                    [\<lparr>reqMethod = GET, reqUrl = apiHost @ ''/v1/conversations'',
                      reqPayload = Some (JObj [])\<rparr>,
                     \<lparr>reqMethod = GET, reqUrl = apiHost @ ''/v1/conversations'',
                      reqPayload = Some (JObj [(''cursor'', JStr cur)])\<rparr>]\<rparr>"
proof -
  let ?srv = "scripted [pageEnvelope ''conversations'' sizeA [itemA] selfA (Some href),
                        pageEnvelope ''conversations'' sizeB [itemB] selfB None]"
  let ?r1 = "\<lparr>reqMethod = GET, reqUrl = apiHost @ ''/v1/conversations'',
               reqPayload = Some (JObj [])\<rparr>"
  let ?r2 = "\<lparr>reqMethod = GET, reqUrl = apiHost @ ''/v1/conversations'',
               reqPayload = Some (JObj [(''cursor'', JStr cur)])\<rparr>"
  have e1: "transformObjectKeys snakeCase (JObj []) False = JObj []"
    by (simp add: transformObjectKeys_def objectFromEntries_def)
  have e2: "transformObjectKeys snakeCase (JObj [(''cursor'', JStr cur)]) False
              = JObj [(''cursor'', JStr cur)]"
    by (simp add: transformObjectKeys_def objectFromEntries_def sc)
  have b1: "listAllBody searchParam (conversationFetcher camelCase snakeCase ?srv apiHost)
              ([], JObj [], []) = Inr ([?r1], JObj [(''cursor'', JStr cur)], [convA])"
    using first_page [where searchParam = searchParam and href = href and cur = cur
                        and camelCase = camelCase and itemA = itemA and convA = convA
                        and srv = ?srv and log = "[]" and apiHost = apiHost
                        and snakeCase = snakeCase and ps = "[]" and sizeA = sizeA
                        and selfA = selfA and acc = "[]"] sp cur convA
    by (simp add: e1 scripted_def)
  have b2: "listAllBody searchParam (conversationFetcher camelCase snakeCase ?srv apiHost)
              ([?r1], JObj [(''cursor'', JStr cur)], [convA])
            = Inl \<lparr>yielded = [convA, convB], completion = None,
                  filterAfter = JObj [(''cursor'', JStr [])], requests = [?r1, ?r2]\<rparr>"
    using last_page [where camelCase = camelCase and itemB = itemB and convB = convB
                       and srv = ?srv and log = "[?r1]" and apiHost = apiHost
                       and snakeCase = snakeCase and ps = "[(''cursor'', JStr cur)]"
                       and sizeB = sizeB and selfB = selfB and searchParam = searchParam
                       and acc = "[convA]"] convB
    by (simp add: e2 scripted_def)
  have d: "orEmptyObject (JObj []) = JObj []"
    by (simp add: orEmptyObject_def)
  show ?thesis
    unfolding listAllConversations_def d
    by (subst listAllLoop.simps, simp only: b1 sum.case, subst listAllLoop.simps, simp only: b2 sum.case)
qed

section \<open>Member requests\<close>

lemma memberToApi_user:
  assumes "memberToApi snakeCase member = Inr body"
  shows "optProp body ''user'' =
           JObj [(''id'', optProp (optProp member ''user'') ''id''),
                 (''name'', optProp (optProp member ''user'') ''name'')]"
proof -
  let ?top = "spread (transformObjectKeys snakeCase
                  (omit [''id'', ''timestamp'', ''conversationId'', ''initiator'', ''invitedBy''] member)
                  True)"
  let ?u = "JObj [(''id'', optProp (optProp member ''user'') ''id''),
                 (''name'', optProp (optProp member ''user'') ''name'')]"
  have b: "body = JObj (objectFromEntries (?top @ [(''user'', ?u), (''member_id_inviting'', optProp member ''invitedBy'')]))"
    using assms
    by (auto simp: memberToApi_def getProp_def Let_def split: if_splits sum.splits)
  show ?thesis
    unfolding b by (simp add: map_of_objectFromEntries)
qed

lemma memberToApi_memberFixture:
  "memberToApi snakeCaseNames memberFixture = Inr createMemberBody"
  by code_simp

lemma conversationToApi_toCreate:
  "conversationToApi snakeCaseNames conversationToCreate = Inr createConversationBody"
  by code_simp

lemma conversationToApi_Inr_id:
  "conversationToApi snakeCase conversation = Inr body
     \<Longrightarrow> getProp conversation ''id'' = Inr (optProp conversation ''id'')"
  by (cases "nullish conversation") (simp_all add: conversationToApi_def getProp_def)

section \<open>The claims\<close>

text \<open>
  C1. For a wire conversation response whose \<^verbatim>\<open>properties\<close> hold a \<^verbatim>\<open>custom_data\<close>
  value, \<^verbatim>\<open>apiToConversation\<close> returns a conversation whose
  \<^verbatim>\<open>properties.customData\<close> is that value, unchanged although the keys around it are
  converted; and for a domain conversation whose \<^verbatim>\<open>properties\<close> hold a \<^verbatim>\<open>customData\<close>
  value, \<^verbatim>\<open>conversationToApi\<close> returns a request whose \<^verbatim>\<open>properties.custom_data\<close> is
  that value. The objects are well formed: \<^verbatim>\<open>properties\<close> and the custom data field are
  the only fields converted to their names.
\<close>

theorem customData_fidelity:
  assumes "soleSource camelCase wire ''properties'' ''properties''"
      and "soleSource camelCase wireProps ''custom_data'' ''customData''"
      and "map_of wire ''properties'' = Some (JObj wireProps)"
      and "map_of wireProps ''custom_data'' = Some wireData"
      and "soleSource snakeCase dmn ''properties'' ''properties''"
      and "soleSource snakeCase dmnProps ''customData'' ''custom_data''"
      and "map_of dmn ''properties'' = Some (JObj dmnProps)"
      and "map_of dmnProps ''customData'' = Some dmnData"
  shows "(\<exists>r c. apiToConversation camelCase (JObj wire) = Inr (r, c)
               \<and> optProp (optProp c ''properties'') ''customData'' = wireData)
       \<and> (\<exists>api. conversationToApi snakeCase (JObj dmn) = Inr api
               \<and> optProp (optProp api ''properties'') ''custom_data'' = dmnData)"
proof
  have a: "camelCase ''properties'' = ''properties''" "distinct (map fst wire)"
    "\<forall>k \<in> fst ` set wire. camelCase k = ''properties'' \<longrightarrow> k = ''properties''"
    using assms(1) by (simp_all add: soleSource_def)
  have b: "camelCase ''custom_data'' = ''customData''" "distinct (map fst wireProps)"
    "\<forall>k \<in> fst ` set wireProps. camelCase k = ''customData'' \<longrightarrow> k = ''custom_data''"
    using assms(2) by (simp_all add: soleSource_def)
  show "\<exists>r c. apiToConversation camelCase (JObj wire) = Inr (r, c)
               \<and> optProp (optProp c ''properties'') ''customData'' = wireData"
    by (rule apiToConversation_customData [OF b(1) a(1) a(2) b(2) assms(3) assms(4) a(3) b(3)])
  have c: "snakeCase ''properties'' = ''properties''" "distinct (map fst dmn)"
    "\<forall>k \<in> fst ` set dmn. snakeCase k = ''properties'' \<longrightarrow> k = ''properties''"
    using assms(5) by (simp_all add: soleSource_def)
  have d: "snakeCase ''customData'' = ''custom_data''" "distinct (map fst dmnProps)"
    "\<forall>k \<in> fst ` set dmnProps. snakeCase k = ''custom_data'' \<longrightarrow> k = ''customData''"
    using assms(6) by (simp_all add: soleSource_def)
  show "\<exists>api. conversationToApi snakeCase (JObj dmn) = Inr api
               \<and> optProp (optProp api ''properties'') ''custom_data'' = dmnData"
    by (rule conversationToApi_customData [OF d(1) c(1) c(2) d(2) assms(7) assms(8) c(3) d(3)])
qed

text \<open>The instance of C1 at the fixtures of the tests.\<close>

lemma fixture_wire_properties_sole: "soleSource camelCaseNames conversationResponseFields ''properties'' ''properties''"
  by code_simp
lemma fixture_wire_custom_data_sole: "soleSource camelCaseNames wireProperties ''custom_data'' ''customData''"
  by code_simp
lemma fixture_wire_properties: "map_of conversationResponseFields ''properties'' = Some (JObj wireProperties)"
  by (simp add: conversationResponseFields_def)
lemma fixture_wire_custom_data: "map_of wireProperties ''custom_data'' = Some customDataFixture"
  by (simp add: wireProperties_def)
lemma fixture_domain_properties_sole: "soleSource snakeCaseNames conversationToCreateFields ''properties'' ''properties''"
  by code_simp
lemma fixture_domain_customData_sole: "soleSource snakeCaseNames domainProperties ''customData'' ''custom_data''"
  by code_simp
lemma fixture_domain_properties: "map_of conversationToCreateFields ''properties'' = Some (JObj domainProperties)"
  by (simp add: conversationToCreateFields_def)
lemma fixture_domain_customData: "map_of domainProperties ''customData'' = Some customDataFixture"
  by (simp add: domainProperties_def)

theorem customData_fidelity_witness:
  "(\<exists>r c. apiToConversation camelCaseNames conversationResponse = Inr (r, c)
               \<and> optProp (optProp c ''properties'') ''customData'' = customDataFixture)
       \<and> (\<exists>api. conversationToApi snakeCaseNames conversationToCreate = Inr api
               \<and> optProp (optProp api ''properties'') ''custom_data'' = customDataFixture)"
  unfolding conversationResponse_def conversationToCreate_def
  by (rule customData_fidelity [OF fixture_wire_properties_sole fixture_wire_custom_data_sole
        fixture_wire_properties fixture_wire_custom_data fixture_domain_properties_sole
        fixture_domain_customData_sole fixture_domain_properties fixture_domain_customData])

text \<open>
  C2. The request \<^verbatim>\<open>conversationToApi\<close> builds from a domain conversation has, at its
  top level, exactly the converted names of the fields of the conversation other than
  \<^verbatim>\<open>id\<close>, \<^verbatim>\<open>sequenceNumber\<close>, \<^verbatim>\<open>timestamp\<close> and \<^verbatim>\<open>state\<close>: those four are removed
  before the conversion. So, when no remaining field is converted to the name of a
  server-owned field, the request has none of them, under the domain name or the wire
  name.
\<close>

theorem conversationToApi_strips_server_owned:
  "\<exists>api. conversationToApi snakeCase (JObj flds) = Inr api
         \<and> set (ownKeys api) = snakeCase ` (fst ` set flds - set serverOwned)
         \<and> ((\<forall>k \<in> fst ` set flds - set serverOwned.
                 snakeCase k \<notin> set serverOwned \<union> snakeCase ` set serverOwned)
              \<longrightarrow> (\<forall>k \<in> set serverOwned. \<not> hasProp api k \<and> \<not> hasProp api (snakeCase k)))"
proof -
  obtain api where a: "conversationToApi snakeCase (JObj flds) = Inr (JObj api)"
    and k: "fst ` set api = snakeCase ` (fst ` set flds - set serverOwned)"
    using conversationToApi_keys by blast
  have "set (ownKeys (JObj api)) = snakeCase ` (fst ` set flds - set serverOwned)"
    using k by simp
  moreover have "(\<forall>k \<in> fst ` set flds - set serverOwned.
                 snakeCase k \<notin> set serverOwned \<union> snakeCase ` set serverOwned)
              \<longrightarrow> (\<forall>k \<in> set serverOwned. \<not> hasProp (JObj api) k \<and> \<not> hasProp (JObj api) (snakeCase k))"
  proof (intro impI ballI)
    fix x
    assume H: "\<forall>k \<in> fst ` set flds - set serverOwned.
                 snakeCase k \<notin> set serverOwned \<union> snakeCase ` set serverOwned"
       and x: "x \<in> set serverOwned"
    have "x \<notin> snakeCase ` (fst ` set flds - set serverOwned)"
    proof
      assume "x \<in> snakeCase ` (fst ` set flds - set serverOwned)"
      then obtain y where "y \<in> fst ` set flds - set serverOwned" and "x = snakeCase y" by blast
      with H x show False by blast
    qed
    moreover have "snakeCase x \<notin> snakeCase ` (fst ` set flds - set serverOwned)"
    proof
      assume "snakeCase x \<in> snakeCase ` (fst ` set flds - set serverOwned)"
      then obtain y where y: "y \<in> fst ` set flds - set serverOwned" and "snakeCase x = snakeCase y"
        by blast
      then have "snakeCase y \<in> snakeCase ` set serverOwned" using x by (metis imageI)
      with H y show False by blast
    qed
    ultimately show "\<not> hasProp (JObj api) x \<and> \<not> hasProp (JObj api) (snakeCase x)"
      unfolding hasProp.simps k by blast
  qed
  ultimately show ?thesis using a by blast
qed

text \<open>The instance of C2 at the conversation of the tests, which has all four fields.\<close>

theorem conversationToApi_strips_server_owned_witness:
  "\<exists>api. conversationToApi snakeCaseNames conversationFixture = Inr api
         \<and> \<not> hasProp api ''id'' \<and> \<not> hasProp api ''sequenceNumber'' \<and> \<not> hasProp api ''sequence_number''
         \<and> \<not> hasProp api ''timestamp'' \<and> \<not> hasProp api ''state''"
proof -
  have h: "\<forall>k \<in> fst ` set conversationFields - set serverOwned.
             snakeCaseNames k \<notin> set serverOwned \<union> snakeCaseNames ` set serverOwned"
    by code_simp
  have s: "snakeCaseNames ''sequenceNumber'' = ''sequence_number''"
    by code_simp
  from conversationToApi_strips_server_owned [of snakeCaseNames conversationFields] h
  obtain api where a: "conversationToApi snakeCaseNames (JObj conversationFields) = Inr api"
    and n: "\<forall>k \<in> set serverOwned. \<not> hasProp api k \<and> \<not> hasProp api (snakeCaseNames k)"
    by blast
  from n s have "\<not> hasProp api ''id'' \<and> \<not> hasProp api ''sequenceNumber'' \<and> \<not> hasProp api ''sequence_number''
         \<and> \<not> hasProp api ''timestamp'' \<and> \<not> hasProp api ''state''"
    by (simp add: serverOwned_def)
  with a show ?thesis unfolding conversationFixture_def by blast
qed

text \<open>
  C3. A server returns page 1 with one item and a next link whose query string carries a
  cursor, then page 2 with one item and no next link. \<^verbatim>\<open>listAllConversations\<close>, called
  with the default filter, yields the two conversations in page order and returns; it has
  made exactly two requests, the first with no parameter and the second with the cursor
  as it was read from the link. The items are objects, \<^verbatim>\<open>snakeCase\<close> leaves the name
  \<^verbatim>\<open>cursor\<close> as it is, and the cursor is not empty (in the claim it is \<^verbatim>\<open>next\<close>).
\<close>

theorem listAllConversations_two_pages:
  assumes "snakeCase ''cursor'' = ''cursor''"
      and "searchParam href ''cursor'' = Inr (Some cur)" and "cur \<noteq> []"
  shows "\<exists>convA convB.
           conversationOf camelCase (JObj itemA) = Inr convA
         \<and> conversationOf camelCase (JObj itemB) = Inr convB
         \<and> listAllConversations camelCase snakeCase searchParam
              (scripted [pageEnvelope ''conversations'' sizeA [JObj itemA] selfA (Some href),
                         pageEnvelope ''conversations'' sizeB [JObj itemB] selfB None])
              apiHost [] (JObj [])
            = Some \<lparr>yielded = [convA, convB], completion = None,
                     filterAfter = JObj [(''cursor'', JStr [])],
                     requests =
                       [\<lparr>reqMethod = GET, reqUrl = apiHost @ ''/v1/conversations'',
                         reqPayload = Some (JObj [])\<rparr>,
                        \<lparr>reqMethod = GET, reqUrl = apiHost @ ''/v1/conversations'',
                         reqPayload = Some (JObj [(''cursor'', JStr cur)])\<rparr>]\<rparr>"
proof -
  obtain convA where a: "conversationOf camelCase (JObj itemA) = Inr convA"
    using apiToConversation_object [of camelCase itemA] by (auto simp: conversationOf_def)
  obtain convB where b: "conversationOf camelCase (JObj itemB) = Inr convB"
    using apiToConversation_object [of camelCase itemB] by (auto simp: conversationOf_def)
  from two_page_listing [where snakeCase = snakeCase and searchParam = searchParam
                           and href = href, OF assms a b] a b
  show ?thesis by blast
qed

text \<open>The instance of C3 at the listing test of the package.\<close>

theorem listAllConversations_two_pages_witness:
  "\<exists>convA convB.
           conversationOf camelCaseNames conversationResponse = Inr convA
         \<and> conversationOf camelCaseNames (JObj secondConversationResponse) = Inr convB
         \<and> listAllConversations camelCaseNames snakeCaseNames searchParamOfTests
              (scripted [pageEnvelope ''conversations'' (JNum 10) [conversationResponse]
                           (JObj [(''href'', JStr ''/v1/conversations'')])
                           (Some ''https://api.nexmo.com/v1/conversations?cursor=next''),
                         pageEnvelope ''conversations'' (JNum 10) [JObj secondConversationResponse]
                           (JObj [(''href'', JStr ''/v1/conversations'')]) None])
              ''https://api.nexmo.com'' [] (JObj [])
            = Some \<lparr>yielded = [convA, convB], completion = None,
                     filterAfter = JObj [(''cursor'', JStr [])],
                     requests =
                       [\<lparr>reqMethod = GET, reqUrl = ''https://api.nexmo.com'' @ ''/v1/conversations'',
                         reqPayload = Some (JObj [])\<rparr>,
                        \<lparr>reqMethod = GET, reqUrl = ''https://api.nexmo.com'' @ ''/v1/conversations'',
                         reqPayload = Some (JObj [(''cursor'', JStr ''next'')])\<rparr>]\<rparr>"
proof -
  have s: "snakeCaseNames ''cursor'' = ''cursor''" by code_simp
  have p: "searchParamOfTests ''https://api.nexmo.com/v1/conversations?cursor=next'' ''cursor''
             = Inr (Some ''next'')"
    by (simp add: searchParamOfTests_def)
  have n: "''next'' \<noteq> []" by simp
  show ?thesis
    unfolding conversationResponse_def
    by (rule listAllConversations_two_pages
              [where snakeCase = snakeCaseNames and searchParam = searchParamOfTests
                 and href = "''https://api.nexmo.com/v1/conversations?cursor=next''", OF s p n])
qed

text \<open>
  C4. The claim is that no transcoder raises, whatever fields are missing, for instance
  on a member with no user. \<^verbatim>\<open>memberToApi\<close> reads \<^verbatim>\<open>member.user.id\<close> without a guard:
  on the member of the documentation example of \<^verbatim>\<open>createMember\<close>, which has no user, it
  raises a TypeError, and \<^verbatim>\<open>createMember\<close> fails before any request is made.
\<close>

theorem memberToApi_raises_without_user:
  "memberToApi snakeCaseNames memberOfDocExample = Inl TypeError
   \<and> createMember camelCaseNames snakeCaseNames (scripted [memberResponse])
        ''https://api.nexmo.com'' [] ''CON-00000000-0000-0000-0000-000000000001''
        memberOfDocExample = (Inl TypeError, [])"
proof -
  have "memberToApi snakeCaseNames memberOfDocExample = Inl TypeError" by code_simp
  then show ?thesis by (simp add: createMember_def)
qed

text \<open>
  C5. The claim is that the transcoders leave their argument as it was, in particular
  the response passed to \<^verbatim>\<open>apiToConversation\<close>. \<^verbatim>\<open>apiToConversation\<close> deletes \<^verbatim>\<open>_links\<close>
  from the object it is given: the response of the tests has the field before the call
  and has lost it after.
\<close>

theorem apiToConversation_deletes_links:
  "hasProp conversationResponse ''_links''
   \<and> map_sum id (\<lambda>rc. hasProp (fst rc) ''_links'') (apiToConversation camelCaseNames conversationResponse)
       = Inr False
   \<and> map_sum id fst (apiToConversation camelCaseNames conversationResponse)
       \<noteq> Inr conversationResponse"
  by code_simp

text \<open>
  C6, as claimed: the body of the PATCH request of \<^verbatim>\<open>updateMember\<close> is the member
  transcoding of its parameters. On the parameters of the documentation example the
  body sent is the parameter object itself, and \<^verbatim>\<open>memberToApi\<close> of these parameters is
  not a body at all: it raises.
\<close>

theorem updateMember_body_counterexample:
  "map reqPayload
     (snd (updateMember camelCaseNames (scripted [memberResponse]) ''https://api.nexmo.com'' []
             ''CON-00000000-0000-0000-0000-000000000001''
             ''MEM-00000000-0000-0000-0000-000000000001'' updateParamsOfDocExample))
     = [Some updateParamsOfDocExample]
   \<and> memberToApi snakeCaseNames updateParamsOfDocExample = Inl TypeError"
proof
  show "map reqPayload
     (snd (updateMember camelCaseNames (scripted [memberResponse]) ''https://api.nexmo.com'' []
             ''CON-00000000-0000-0000-0000-000000000001''
             ''MEM-00000000-0000-0000-0000-000000000001'' updateParamsOfDocExample))
     = [Some updateParamsOfDocExample]"
    by (simp add: updateMember_def sendRequest_def split: sum.splits)
  show "memberToApi snakeCaseNames updateParamsOfDocExample = Inl TypeError"
    by code_simp
qed

text \<open>
  C6, amended. Every single-item operation makes exactly one request once its argument
  is transcoded (a transcoding error is raised before any request). The get and delete
  operations send no body; \<^verbatim>\<open>createConversation\<close> and \<^verbatim>\<open>updateConversation\<close> send
  \<^verbatim>\<open>conversationToApi\<close> of the conversation, \<^verbatim>\<open>createMember\<close> sends \<^verbatim>\<open>memberToApi\<close> of the
  member, and \<^verbatim>\<open>updateMember\<close> sends its parameter object as it is, with no transcoding
  and no renaming.
\<close>

theorem single_item_round_trips:
  "snd (getConversation camelCase srv apiHost log conversationId)
     = log @ [\<lparr>reqMethod = GET, reqUrl = apiHost @ ''/v1/conversations/'' @ conversationId,
               reqPayload = None\<rparr>]
   \<and> snd (deleteConversation srv apiHost log conversationId)
     = log @ [\<lparr>reqMethod = DELETE, reqUrl = apiHost @ ''/v1/conversations/'' @ conversationId,
               reqPayload = None\<rparr>]
   \<and> snd (getMember camelCase srv apiHost log conversationId memberId)
     = log @ [\<lparr>reqMethod = GET,
               reqUrl = apiHost @ ''/v1/conversations/'' @ conversationId @ ''/members/'' @ memberId,
               reqPayload = None\<rparr>]
   \<and> snd (updateMember camelCase srv apiHost log conversationId memberId params)
     = log @ [\<lparr>reqMethod = PATCH,
               reqUrl = apiHost @ ''/v1/conversations/'' @ conversationId @ ''/members/'' @ memberId,
               reqPayload = Some params\<rparr>]
   \<and> (conversationToApi snakeCase conversation = Inr body \<longrightarrow>
        snd (createConversation camelCase snakeCase srv apiHost log conversation)
          = log @ [\<lparr>reqMethod = POST, reqUrl = apiHost @ ''/v1/conversations'',
                    reqPayload = Some body\<rparr>]
      \<and> snd (updateConversation camelCase snakeCase toStr srv apiHost log conversation)
          = log @ [\<lparr>reqMethod = PUT,
                    reqUrl = apiHost @ ''/v1/conversations/''
                               @ templateText toStr (optProp conversation ''id''),
                    reqPayload = Some body\<rparr>])
   \<and> (memberToApi snakeCase member = Inr memberBody \<longrightarrow>
        snd (createMember camelCase snakeCase srv apiHost log conversationId member)
          = log @ [\<lparr>reqMethod = POST,
                    reqUrl = apiHost @ ''/v1/conversations/'' @ conversationId @ ''/members'',
                    reqPayload = Some memberBody\<rparr>])"
proof (intro conjI impI)
  show "snd (getConversation camelCase srv apiHost log conversationId)
     = log @ [\<lparr>reqMethod = GET, reqUrl = apiHost @ ''/v1/conversations/'' @ conversationId,
               reqPayload = None\<rparr>]"
    by (simp add: getConversation_def sendRequest_def split: sum.splits)
  show "snd (deleteConversation srv apiHost log conversationId)
     = log @ [\<lparr>reqMethod = DELETE, reqUrl = apiHost @ ''/v1/conversations/'' @ conversationId,
               reqPayload = None\<rparr>]"
    by (simp add: deleteConversation_def sendRequest_def split: sum.splits)
  show "snd (getMember camelCase srv apiHost log conversationId memberId)
     = log @ [\<lparr>reqMethod = GET,
               reqUrl = apiHost @ ''/v1/conversations/'' @ conversationId @ ''/members/'' @ memberId,
               reqPayload = None\<rparr>]"
    by (simp add: getMember_def sendRequest_def split: sum.splits)
  show "snd (updateMember camelCase srv apiHost log conversationId memberId params)
     = log @ [\<lparr>reqMethod = PATCH,
               reqUrl = apiHost @ ''/v1/conversations/'' @ conversationId @ ''/members/'' @ memberId,
               reqPayload = Some params\<rparr>]"
    by (simp add: updateMember_def sendRequest_def split: sum.splits)
next
  assume b: "conversationToApi snakeCase conversation = Inr body"
  show "snd (createConversation camelCase snakeCase srv apiHost log conversation)
          = log @ [\<lparr>reqMethod = POST, reqUrl = apiHost @ ''/v1/conversations'',
                    reqPayload = Some body\<rparr>]"
    by (simp add: createConversation_def b sendRequest_def split: sum.splits)
  show "snd (updateConversation camelCase snakeCase toStr srv apiHost log conversation)
          = log @ [\<lparr>reqMethod = PUT,
                    reqUrl = apiHost @ ''/v1/conversations/''
                               @ templateText toStr (optProp conversation ''id''),
                    reqPayload = Some body\<rparr>]"
    by (simp add: updateConversation_def b conversationToApi_Inr_id [OF b] sendRequest_def
             split: sum.splits)
next
  assume m: "memberToApi snakeCase member = Inr memberBody"
  show "snd (createMember camelCase snakeCase srv apiHost log conversationId member)
          = log @ [\<lparr>reqMethod = POST,
                    reqUrl = apiHost @ ''/v1/conversations/'' @ conversationId @ ''/members'',
                    reqPayload = Some memberBody\<rparr>]"
    by (simp add: createMember_def m sendRequest_def split: sum.splits)
qed

text \<open>The instance of C6 at the two create tests of the package.\<close>

theorem single_item_round_trips_witness:
  "snd (createConversation camelCaseNames snakeCaseNames (scripted [conversationResponse])
          ''https://api.nexmo.com'' [] conversationToCreate)
     = [\<lparr>reqMethod = POST, reqUrl = ''https://api.nexmo.com/v1/conversations'',
         reqPayload = Some createConversationBody\<rparr>]
   \<and> snd (createMember camelCaseNames snakeCaseNames (scripted [memberResponse])
          ''https://api.nexmo.com'' [] ''CON-1'' memberFixture)
     = [\<lparr>reqMethod = POST, reqUrl = ''https://api.nexmo.com/v1/conversations/CON-1/members'',
         reqPayload = Some createMemberBody\<rparr>]"
  using single_item_round_trips [of camelCaseNames "scripted [conversationResponse]"
          "''https://api.nexmo.com''" "[]" "''CON-1''" _ _ snakeCaseNames conversationToCreate
          createConversationBody _ memberFixture createMemberBody]
        single_item_round_trips [of camelCaseNames "scripted [memberResponse]"
          "''https://api.nexmo.com''" "[]" "''CON-1''" _ _ snakeCaseNames conversationToCreate
          createConversationBody _ memberFixture createMemberBody]
  by (simp add: conversationToApi_toCreate memberToApi_memberFixture)

text \<open>
  C7. When the envelope the server returns has no \<^verbatim>\<open>_embedded\<close> field, or an
  \<^verbatim>\<open>_embedded\<close> value without the item array, \<^verbatim>\<open>getConversationPage\<close> and
  \<^verbatim>\<open>getMemberPage\<close> return a page with no item, not an error.
\<close>

theorem malformed_envelope_is_empty_page:
  assumes "srv log \<lparr>reqMethod = GET, reqUrl = apiHost @ ''/v1/conversations'',
                    reqPayload = Some (transformObjectKeys snakeCase filterParams False)\<rparr>
             = Inr (JObj env)"
      and "\<not> hasProp (JObj env) ''_embedded''
           \<or> \<not> hasProp (optProp (JObj env) ''_embedded'') ''conversations''"
      and "srv log \<lparr>reqMethod = GET,
                    reqUrl = apiHost @ ''/v1/conversations/'' @ conversationId @ ''/members'',
                    reqPayload = Some (transformObjectKeys snakeCase (orEmptyObject filterParams) False)\<rparr>
             = Inr (JObj env')"
      and "\<not> hasProp (JObj env') ''_embedded''
           \<or> \<not> hasProp (optProp (JObj env') ''_embedded'') ''members''"
  shows "(\<exists>p. fst (getConversationPage camelCase snakeCase srv apiHost log filterParams) = Inr p
              \<and> pageItems p = [])
       \<and> (\<exists>p. fst (getMemberPage camelCase snakeCase srv apiHost log conversationId filterParams) = Inr p
              \<and> pageItems p = [])"
  using assms(1,3) toPage_missing_items [OF assms(2)] toPage_missing_items [OF assms(4)]
  by (simp add: getConversationPage_def getMemberPage_def sendRequest_def)

text \<open>The instance of C7 at an envelope that has only a page size.\<close>

theorem malformed_envelope_is_empty_page_witness:
  "(\<exists>p. fst (getConversationPage camelCaseNames snakeCaseNames
               (scripted [JObj [(''page_size'', JNum 10)]]) ''https://api.nexmo.com'' [] (JObj [])) = Inr p
              \<and> pageItems p = [])
       \<and> (\<exists>p. fst (getMemberPage camelCaseNames snakeCaseNames
               (scripted [JObj [(''page_size'', JNum 10)]]) ''https://api.nexmo.com'' [] ''CON-1'' (JObj [])) = Inr p
              \<and> pageItems p = [])"
  using malformed_envelope_is_empty_page [of "scripted [JObj [(''page_size'', JNum 10)]]" "[]"
      "''https://api.nexmo.com''" snakeCaseNames "JObj []" "[(''page_size'', JNum 10)]"
      "''CON-1''" "[(''page_size'', JNum 10)]" camelCaseNames]
  by (simp add: scripted_def)

text \<open>
  C8. \<^verbatim>\<open>getMe(conversationId)\<close> is \<^verbatim>\<open>getMember(conversationId, 'me')\<close>: the same result,
  and one request, a GET of the member path with the identifier \<^verbatim>\<open>me\<close> and no payload.
\<close>

theorem getMe_is_getMember:
  "getMe camelCase srv apiHost log conversationId
     = getMember camelCase srv apiHost log conversationId ''me''
   \<and> snd (getMe camelCase srv apiHost log conversationId)
     = log @ [\<lparr>reqMethod = GET,
               reqUrl = apiHost @ ''/v1/conversations/'' @ conversationId @ ''/members/me'',
               reqPayload = None\<rparr>]"
  by (simp add: getMe_def getMember_def sendRequest_def split: sum.splits)



text \<open>
  C10. Whenever \<^verbatim>\<open>createMember\<close> makes a request, it is one POST whose body has a
  \<^verbatim>\<open>user\<close> object with exactly the fields \<^verbatim>\<open>id\<close> and \<^verbatim>\<open>name\<close>, holding
  \<^verbatim>\<open>member.user.id\<close> and \<^verbatim>\<open>member.user.name\<close>; nothing else of the user is sent.
\<close>

theorem createMember_user_fields:
  assumes "snd (createMember camelCase snakeCase srv apiHost log conversationId member) \<noteq> log"
  shows "\<exists>body. snd (createMember camelCase snakeCase srv apiHost log conversationId member)
                 = log @ [\<lparr>reqMethod = POST,
                           reqUrl = apiHost @ ''/v1/conversations/'' @ conversationId @ ''/members'',
                           reqPayload = Some body\<rparr>]
              \<and> optProp body ''user'' =
                  JObj [(''id'', optProp (optProp member ''user'') ''id''),
                        (''name'', optProp (optProp member ''user'') ''name'')]"
proof (cases "memberToApi snakeCase member")
  case (Inl e)
  then have "snd (createMember camelCase snakeCase srv apiHost log conversationId member) = log"
    by (simp add: createMember_def)
  with assms show ?thesis by simp
next
  case (Inr body)
  then have "snd (createMember camelCase snakeCase srv apiHost log conversationId member)
                 = log @ [\<lparr>reqMethod = POST,
                           reqUrl = apiHost @ ''/v1/conversations/'' @ conversationId @ ''/members'',
                           reqPayload = Some body\<rparr>]"
    by (simp add: createMember_def sendRequest_def split: sum.splits)
  with memberToApi_user [OF Inr] show ?thesis by blast
qed

text \<open>
  The instance of C10 at the member of the tests, whose user also has a display name.
\<close>

theorem createMember_user_fields_witness:
  "\<exists>body. snd (createMember camelCaseNames snakeCaseNames (scripted [memberResponse])
                   ''https://api.nexmo.com'' [] ''CON-00000000-0000-0000-0000-000000000001''
                   memberFixture)
             = [\<lparr>reqMethod = POST,
                 reqUrl = ''https://api.nexmo.com/v1/conversations/CON-00000000-0000-0000-0000-000000000001/members'',
                 reqPayload = Some body\<rparr>]
          \<and> optProp body ''user'' =
               JObj [(''id'', JStr ''USR-00000000-0000-0000-0000-000000000001''),
                     (''name'', JStr ''Alice Smith'')]"
proof -
  have ne: "snd (createMember camelCaseNames snakeCaseNames (scripted [memberResponse])
                   ''https://api.nexmo.com'' [] ''CON-00000000-0000-0000-0000-000000000001''
                   memberFixture) \<noteq> []"
    by (simp add: createMember_def memberToApi_memberFixture sendRequest_def split: sum.splits)
  have u: "optProp (optProp memberFixture ''user'') ''id''
             = JStr ''USR-00000000-0000-0000-0000-000000000001''"
          "optProp (optProp memberFixture ''user'') ''name'' = JStr ''Alice Smith''"
    by (simp_all add: memberFixture_def)
  from createMember_user_fields [OF ne] show ?thesis by (simp add: u)
qed

end
